theory Spec2Isabelle
  imports Main
begin

section \<open>Constants and format strings\<close>

text \<open>
  The model follows the auto-detecting variant of package \<open>program\<close> (the one whose
  \<open>render\<close> takes \<open>cmdName\<close>) and the two \<open>i3-msg\<close>-only variants of
  \<open>internal/program/program.go\<close>, whose \<open>render\<close> functions are textually the same.
\<close>

definition startWS :: int where
  "startWS = 1"

definition endWS :: int where
  "endWS = 10"

text \<open>The verbs of \<open>fmt.Sprintf\<close>: \<open>%d\<close> prints an integer in decimal, \<open>%t\<close> a boolean.\<close>

fun digitsOf :: "nat \<Rightarrow> string" where
  "digitsOf n =
     (if n < 10 then [char_of (48 + n)]
      else digitsOf (n div 10) @ [char_of (48 + n mod 10)])"

definition fmtInt :: "int \<Rightarrow> string" where
  "fmtInt i = (if i < 0 then CHR ''-'' # digitsOf (nat (- i)) else digitsOf (nat i))"

definition fmtBool :: "bool \<Rightarrow> string" where
  "fmtBool b = (if b then ''true'' else ''false'')"

definition ewwFormat :: "string \<Rightarrow> string" where
  \<open>ewwFormat s =
     ''(box :class "workspaces" :orientation "h" :halign "start" :spacing "6" :space-evenly "true" ''
       @ s @ '')''\<close>

text \<open>\<open>btnFormat\<close> of the auto-detecting variant: the command is the first verb.\<close>

definition btnFormat :: "string \<Rightarrow> int \<Rightarrow> bool \<Rightarrow> string \<Rightarrow> int \<Rightarrow> string" where
  \<open>btnFormat cmd n vis cls label =
     ''(button :onclick "'' @ cmd @ '' 'workspace '' @ fmtInt n @ [CHR 0x27] @ ''" :visible ''
       @ fmtBool vis @ '' :class "'' @ cls @ ''" "'' @ fmtInt label @ ''")''\<close>

text \<open>\<open>btnFormat\<close> of \<open>program.go\<close>: the command \<open>i3-msg\<close> is part of the format.\<close>

definition btnFormat_i3 :: "int \<Rightarrow> bool \<Rightarrow> string \<Rightarrow> int \<Rightarrow> string" where
  \<open>btnFormat_i3 n vis cls label =
     ''(button :onclick "i3-msg 'workspace '' @ fmtInt n @ [CHR 0x27] @ ''" :visible ''
       @ fmtBool vis @ '' :class "'' @ cls @ ''" "'' @ fmtInt label @ ''")''\<close>

text \<open>\<open>strings.Join\<close>.\<close>

fun Join :: "string list \<Rightarrow> string \<Rightarrow> string" where
  "Join [] sep = []"
| "Join [x] sep = x"
| "Join (x # y # ys) sep = x @ sep @ Join (y # ys) sep"

section \<open>Data model\<close>

record MonitorInfo =
  Monitor :: string
  MonitorOutput :: string

text \<open>
  \<open>Workspace\<close> (called \<open>I3Workspace\<close> in \<open>program.go\<close>). \<open>Num\<close> is a Go \<open>int\<close>; the
  code only uses it as an index, so it is an \<open>int\<close> here and the bounds check of the
  indexing is written out in \<open>assign\<close>.
\<close>

record Workspace =
  Name :: string
  Num :: int
  Focused :: bool
  Urgent :: bool
  Output :: string

datatype error =
    TimeoutWaitingForFile string
  | TimeoutParsingJSON string
  | ReadMonitorsFile
  | ParseMonitorsJSON
  | MonitorNotFound string string
  | GetWorkspaces string
  | UnmarshalWorkspaces

text \<open>A run-time panic of Go: index \<open>n\<close> out of range for a slice of the given length.\<close>

datatype panic = IndexOutOfRange int nat

datatype fault = Err error | Panic panic

section \<open>The outside world\<close>

text \<open>
  What a child process does: whether it started and exited with status 0, how long it
  ran (milliseconds), and what it wrote to its standard output.
\<close>

record proc =
  exit_ok :: bool
  millis :: nat
  out :: string

text \<open>
  The environment of one render cycle: the value of \<open>PATH\<close>, the result of
  \<open>exec.LookPath\<close> (\<open>None\<close> when it returns an error) and what running a program with
  given arguments does. It is taken to be the same for all calls within one cycle.
\<close>

record env =
  PATH :: string
  lookPath :: "string \<Rightarrow> string option"
  run :: "string \<Rightarrow> string list \<Rightarrow> proc"

text \<open>
  A command run under \<open>context.WithTimeout\<close>: the error is \<open>nil\<close> exactly when the
  process exits with status 0 before the deadline kills it.
\<close>

definition runCtx :: "nat \<Rightarrow> proc \<Rightarrow> bool" where
  "runCtx timeout p = (exit_ok p \<and> millis p < timeout)"

text \<open>\<open>os.ReadFile\<close> returns the bytes and an error.\<close>

datatype fileRead = ReadOk string | ReadErr string

fun bytesOf :: "fileRead \<Rightarrow> string" where
  "bytesOf (ReadOk d) = d"
| "bytesOf (ReadErr d) = d"

text \<open>
  The variable \<open>infos\<close> is a Go slice of \<open>MonitorInfo\<close>: the elements of its backing array
  up to its capacity, and its length. \<open>nil\<close> has neither; \<open>range\<close> visits the elements
  below the length.
\<close>

record slice =
  backing :: "MonitorInfo list"
  slen :: nat

definition nilSlice :: slice where
  "nilSlice = \<lparr>backing = [], slen = 0\<rparr>"

definition elems :: "slice \<Rightarrow> MonitorInfo list" where
  "elems s = take (slen s) (backing s)"

text \<open>
  \<open>json.Unmarshal\<close> belongs to the Go library; it is a parameter of the functions that
  call it. For the monitors file it is given the bytes and a pointer to \<open>infos\<close>, which it
  updates in place whether it succeeds or not: here it takes the bytes and the current
  value of \<open>infos\<close> and returns whether its error is \<open>nil\<close>, and the value it leaves in
  \<open>infos\<close>. The workspace query decodes into a variable that is \<open>nil\<close> at every call, so
  its decoder is a function of the bytes (\<open>None\<close> when it returns an error).
\<close>

type_synonym unmarshalMonitors = "string \<Rightarrow> slice \<Rightarrow> bool \<times> slice"
type_synonym unmarshalWorkspaces = "string \<Rightarrow> Workspace list option"

section \<open>Monitor resolution\<close>

text \<open>
  Both polling loops select between \<open>ctx.Done()\<close> and a 200ms tick. The argument
  \<open>reads\<close> lists what \<open>os.ReadFile\<close> returns at the successive ticks that come before
  the deadline; when it is exhausted the context is done. Each function returns the ticks
  it has not used, so the time a call takes is the number of ticks it consumed.
\<close>

fun waitForFile :: "string \<Rightarrow> fileRead list \<Rightarrow> (error + string) \<times> fileRead list" where
  "waitForFile path [] = (Inl (TimeoutWaitingForFile path), [])"
| "waitForFile path (ReadOk d # rs) =
     (if length d > 0 then (Inr d, rs) else waitForFile path rs)"
| "waitForFile path (ReadErr d # rs) = waitForFile path rs"

text \<open>
  The loop \<open>for { if json.Unmarshal(data, &infos) == nil { break } ... }\<close>. The
  variable \<open>infos\<close> is declared before the loop, so every attempt decodes into what the
  attempt before it left there.
\<close>

fun unmarshalLoop ::
  "unmarshalMonitors \<Rightarrow> string \<Rightarrow> string \<Rightarrow> slice \<Rightarrow> fileRead list
     \<Rightarrow> (error + slice) \<times> fileRead list" where
  "unmarshalLoop um path d infos [] =
     (case um d infos of
        (True, infos') \<Rightarrow> (Inr infos', [])
      | (False, infos') \<Rightarrow> (Inl (TimeoutParsingJSON path), []))"
| "unmarshalLoop um path d infos (r # rs) =
     (case um d infos of
        (True, infos') \<Rightarrow> (Inr infos', r # rs)
      | (False, infos') \<Rightarrow> unmarshalLoop um path (bytesOf r) infos' rs)"

text \<open>The loop \<open>for _, mi := range infos\<close> and the error that follows it.\<close>

fun findMonitor :: "string \<Rightarrow> string \<Rightarrow> MonitorInfo list \<Rightarrow> error + string" where
  "findMonitor path monitor [] = Inl (MonitorNotFound monitor path)"
| "findMonitor path monitor (mi # infos) =
     (if Monitor mi = monitor then Inr (MonitorOutput mi)
      else findMonitor path monitor infos)"

text \<open>\<open>readMonitorOutput\<close> of the auto-detecting variant; \<open>var infos\<close> starts as \<open>nil\<close>.\<close>

definition readMonitorOutput ::
  "unmarshalMonitors \<Rightarrow> string \<Rightarrow> string \<Rightarrow> fileRead list
     \<Rightarrow> (error + string) \<times> fileRead list" where
  "readMonitorOutput um path monitor reads =
     (case waitForFile path reads of
        (Inl e, rs) \<Rightarrow> (Inl e, rs)
      | (Inr d, rs) \<Rightarrow>
          (case unmarshalLoop um path d nilSlice rs of
             (Inl e, rs') \<Rightarrow> (Inl e, rs')
           | (Inr infos, rs') \<Rightarrow> (findMonitor path monitor (elems infos), rs')))"

text \<open>
  \<open>ReadMonitorOutput\<close> of \<open>program.go\<close> (first variant): \<open>waitForReadableFile\<close> is
  \<open>waitForFile\<close> under another name, the retry uses a ticker instead of \<open>time.After\<close>,
  and a failed re-read keeps whatever bytes \<open>os.ReadFile\<close> returned before retrying.
\<close>

definition ReadMonitorOutput ::
  "unmarshalMonitors \<Rightarrow> string \<Rightarrow> string \<Rightarrow> fileRead list
     \<Rightarrow> (error + string) \<times> fileRead list" where
  "ReadMonitorOutput um path monitor reads =
     (case waitForFile path reads of
        (Inl e, rs) \<Rightarrow> (Inl e, rs)
      | (Inr d, rs) \<Rightarrow>
          (case unmarshalLoop um path d nilSlice rs of
             (Inl e, rs') \<Rightarrow> (Inl e, rs')
           | (Inr infos, rs') \<Rightarrow> (findMonitor path monitor (elems infos), rs')))"

text \<open>
  \<open>readMonitors\<close> of \<open>program.go\<close> (second variant): one read, one decode into a
  \<open>nil\<close> slice. Its not-found error does not name the path.
\<close>

definition readMonitors :: "unmarshalMonitors \<Rightarrow> string \<Rightarrow> string \<Rightarrow> fileRead \<Rightarrow> error + string" where
  "readMonitors um path monitor r =
     (case r of
        ReadErr d \<Rightarrow> Inl ReadMonitorsFile
      | ReadOk d \<Rightarrow>
          (case um d nilSlice of
             (False, infos) \<Rightarrow> Inl ParseMonitorsJSON
           | (True, infos) \<Rightarrow> findMonitor [] monitor (elems infos)))"

section \<open>Command detection\<close>

text \<open>
  \<open>detectCommand\<close> first prints the value of \<open>PATH\<close> to standard output
  (\<open>fmt.Println("PATH:", ...)\<close> separates its operands with a space). Standard output is
  the list of lines written so far.
\<close>

definition detectCommand :: "env \<Rightarrow> string list \<Rightarrow> string \<times> string list" where
  "detectCommand e stdout =
     (let stdout' = stdout @ [''PATH: '' @ PATH e] in
      case (case lookPath e ''swaymsg'' of
              Some swayPath \<Rightarrow>
                if runCtx 300 (run e swayPath [''-t'', ''get_version'']) then Some swayPath
                else None
            | None \<Rightarrow> None) of
        Some swayPath \<Rightarrow> (swayPath, stdout')
      | None \<Rightarrow>
          (case lookPath e ''i3-msg'' of
             Some i3Path \<Rightarrow> (i3Path, stdout')
           | None \<Rightarrow> (''i3-msg'', stdout')))"

section \<open>Render\<close>

definition fetchWorkspaces ::
  "unmarshalWorkspaces \<Rightarrow> env \<Rightarrow> nat \<Rightarrow> string \<Rightarrow> error + Workspace list" where
  "fetchWorkspaces um e timeout cmdName =
     (let p = run e cmdName [''-t'', ''get_workspaces''] in
      if \<not> runCtx timeout p then Inl (GetWorkspaces cmdName)
      else (case um (out p) of
              None \<Rightarrow> Inl UnmarshalWorkspaces
            | Some wss \<Rightarrow> Inr wss))"

text \<open>An indexed assignment \<open>xs[n] = v\<close> of Go panics when \<open>n\<close> is out of range.\<close>

definition assign :: "'a list \<Rightarrow> int \<Rightarrow> 'a \<Rightarrow> panic + 'a list" where
  "assign xs n v =
     (if 0 \<le> n \<and> n < int (length xs) then Inr (xs[nat n := v])
      else Inl (IndexOutOfRange n (length xs)))"

text \<open>
  \<open>make([]string, endWS+1)\<close>, \<open>make([]bool, endWS+1)\<close> and the loop that sets the slots
  \<open>startWS..endWS\<close> to their defaults.
\<close>

definition initSlots :: "string list \<times> bool list" where
  "initSlots =
     fold (\<lambda>i (states, visible). (states[nat i := ''unoccupied''], visible[nat i := True]))
       [startWS..endWS]
       (replicate (nat (endWS + 1)) [], replicate (nat (endWS + 1)) False)"

text \<open>
  The loop \<open>for _, ws := range wss\<close>: the \<open>switch\<close> assigns \<open>states[ws.Num]\<close>, then
  \<open>visible[ws.Num]\<close> is set (in \<open>program.go\<close> inside each case, after the state).
\<close>

fun markSlots ::
  "string \<Rightarrow> Workspace list \<Rightarrow> string list \<times> bool list \<Rightarrow> panic + string list \<times> bool list" where
  "markSlots output [] (states, visible) = Inr (states, visible)"
| "markSlots output (ws # wss) (states, visible) =
     (if Output ws \<noteq> output then markSlots output wss (states, visible)
      else
        (case (if Urgent ws then assign states (Num ws) ''urgent''
               else if Focused ws then assign states (Num ws) ''focused''
               else assign states (Num ws) ''occupied'') of
           Inl p \<Rightarrow> Inl p
         | Inr states' \<Rightarrow>
             (case assign visible (Num ws) True of
                Inl p \<Rightarrow> Inl p
              | Inr visible' \<Rightarrow> markSlots output wss (states', visible'))))"

text \<open>
  The loop that builds \<open>parts\<close> in the auto-detecting variant: every iteration calls
  \<open>detectCommand()\<close> for the first verb of \<open>btnFormat\<close>.
\<close>

fun buttonLoop ::
  "env \<Rightarrow> string list \<Rightarrow> bool list \<Rightarrow> int list \<Rightarrow> string list \<times> string list
     \<Rightarrow> string list \<times> string list" where
  "buttonLoop e states visible [] (parts, stdout) = (parts, stdout)"
| "buttonLoop e states visible (i # is) (parts, stdout) =
     (case detectCommand e stdout of
        (cmd, stdout') \<Rightarrow>
          buttonLoop e states visible is
            (parts @ [btnFormat cmd i (visible ! nat i) (states ! nat i) i], stdout'))"

text \<open>\<open>render\<close> of the auto-detecting variant; it returns the lines of standard output.\<close>

definition render ::
  "unmarshalWorkspaces \<Rightarrow> env \<Rightarrow> string \<Rightarrow> string \<Rightarrow> string list
     \<Rightarrow> (fault + unit) \<times> string list" where
  "render um e cmdName output stdout =
     (case fetchWorkspaces um e 500 cmdName of
        Inl err \<Rightarrow> (Inl (Err err), stdout)
      | Inr wss \<Rightarrow>
          (case markSlots output wss initSlots of
             Inl p \<Rightarrow> (Inl (Panic p), stdout)
           | Inr (states, visible) \<Rightarrow>
               (case buttonLoop e states visible [startWS..endWS] ([], stdout) of
                  (parts, stdout') \<Rightarrow>
                    (Inr (), stdout' @ [ewwFormat (Join parts '' '')]))))"

text \<open>\<open>render\<close> of \<open>program.go\<close>: the command is always \<open>i3-msg\<close>.\<close>

definition render_i3 ::
  "unmarshalWorkspaces \<Rightarrow> env \<Rightarrow> string \<Rightarrow> string list \<Rightarrow> (fault + unit) \<times> string list" where
  "render_i3 um e output stdout =
     (case fetchWorkspaces um e 500 ''i3-msg'' of
        Inl err \<Rightarrow> (Inl (Err err), stdout)
      | Inr wss \<Rightarrow>
          (case markSlots output wss initSlots of
             Inl p \<Rightarrow> (Inl (Panic p), stdout)
           | Inr (states, vis) \<Rightarrow>
               (Inr (),
                stdout @
                  [ewwFormat
                     (Join (map (\<lambda>i. btnFormat_i3 i (vis ! nat i) (states ! nat i) i)
                              [startWS..endWS]) '' '')])))"

section \<open>The event loop\<close>

text \<open>
  The loop \<open>for scanner.Scan() { ... }\<close> of \<open>subscribeAndRender\<close>: one environment per
  event line received. A failed render is logged with \<open>log.Println\<close> (which writes to the
  log, not to standard output) and the loop goes on; a panic ends the program.
\<close>

record io =
  stdout :: "string list"
  logged :: "(string \<times> error) list"

fun scanLoop ::
  "unmarshalWorkspaces \<Rightarrow> string \<Rightarrow> string \<Rightarrow> env list \<Rightarrow> io \<Rightarrow> (panic + unit) \<times> io" where
  "scanLoop um cmdName output [] s = (Inr (), s)"
| "scanLoop um cmdName output (e # es) s =
     (case render um e cmdName output (stdout s) of
        (Inl (Panic p), lines) \<Rightarrow> (Inl p, s\<lparr>stdout := lines\<rparr>)
      | (Inl (Err err), lines) \<Rightarrow>
          scanLoop um cmdName output es
            (s\<lparr>stdout := lines, logged := logged s @ [(''render error:'', err)]\<rparr>)
      | (Inr u, lines) \<Rightarrow> scanLoop um cmdName output es (s\<lparr>stdout := lines\<rparr>))"

section \<open>Notions used to state the properties\<close>

text \<open>The class name that the \<open>switch\<close> of \<open>render\<close> writes for one record.\<close>

definition stateOf :: "Workspace \<Rightarrow> string" where
  "stateOf ws =
     (if Urgent ws then ''urgent'' else if Focused ws then ''focused'' else ''occupied'')"

text \<open>A record is on the target output and carries slot number \<open>i\<close>.\<close>

definition onSlot :: "string \<Rightarrow> int \<Rightarrow> Workspace \<Rightarrow> bool" where
  "onSlot output i ws = (Output ws = output \<and> Num ws = i)"

text \<open>The line that \<open>detectCommand\<close> prints, and the command it returns.\<close>

definition pathLine :: "env \<Rightarrow> string" where
  "pathLine e = ''PATH: '' @ PATH e"

definition detected :: "env \<Rightarrow> string" where
  "detected e = fst (detectCommand e [])"

text \<open>
  The markup line in which the button of slot \<open>i\<close> carries the visibility flag \<open>vis i\<close>
  and the class \<open>st i\<close>, for the two button formats.
\<close>

definition widget :: "string \<Rightarrow> (int \<Rightarrow> bool) \<Rightarrow> (int \<Rightarrow> string) \<Rightarrow> string" where
  "widget cmd vis st =
     ewwFormat (Join (map (\<lambda>i. btnFormat cmd i (vis i) (st i) i) [startWS..endWS]) '' '')"

definition widget_i3 :: "(int \<Rightarrow> bool) \<Rightarrow> (int \<Rightarrow> string) \<Rightarrow> string" where
  "widget_i3 vis st =
     ewwFormat (Join (map (\<lambda>i. btnFormat_i3 i (vis i) (st i) i) [startWS..endWS]) '' '')"

subsection \<open>Sample inputs\<close>

text \<open>
  An environment given by what \<open>exec.LookPath\<close> finds for the two tools, what the
  version query does and what the workspace query does.
\<close>

definition sampleEnv :: "string option \<Rightarrow> string option \<Rightarrow> proc \<Rightarrow> proc \<Rightarrow> env" where
  "sampleEnv sway i3 version workspaces =
     \<lparr>PATH = ''/usr/bin'',
      lookPath = (\<lambda>name. if name = ''swaymsg'' then sway
                        else if name = ''i3-msg'' then i3 else None),
      run = (\<lambda>prog args. if args = [''-t'', ''get_version''] then version else workspaces)\<rparr>"

definition exited :: "string \<Rightarrow> proc" where
  "exited text = \<lparr>exit_ok = True, millis = 20, out = text\<rparr>"

definition failed :: proc where
  "failed = \<lparr>exit_ok = False, millis = 20, out = []\<rparr>"

text \<open>The decoder restricted to one document: \<open>text\<close> decodes to \<open>v\<close>, nothing else decodes.\<close>

definition decodes :: "string \<Rightarrow> 'a \<Rightarrow> string \<Rightarrow> 'a option" where
  "decodes text v = (\<lambda>s. if s = text then Some v else None)"

definition workspace :: "int \<Rightarrow> bool \<Rightarrow> bool \<Rightarrow> string \<Rightarrow> Workspace" where
  "workspace n f u output =
     \<lparr>Name = fmtInt n, Num = n, Focused = f, Urgent = u, Output = output\<rparr>"

text \<open>
  What \<open>json.Unmarshal\<close> leaves in a slice of \<open>MonitorInfo\<close> when it decodes an array of
  objects: element \<open>i\<close> of the array is decoded into element \<open>i\<close> of the backing array
  (a zero value is appended first when the capacity is used up), and a field is assigned
  only when the object has its key with a string value; the length becomes the number of
  elements of the array. An object is given by the strings it assigns to \<open>monitor\<close> and
  to \<open>output\<close>.
\<close>

definition setFields :: "string option \<times> string option \<Rightarrow> MonitorInfo \<Rightarrow> MonitorInfo" where
  "setFields f mi =
     \<lparr>Monitor = (case fst f of Some v \<Rightarrow> v | None \<Rightarrow> Monitor mi),
      MonitorOutput = (case snd f of Some v \<Rightarrow> v | None \<Rightarrow> MonitorOutput mi)\<rparr>"

fun decodeFrom ::
  "nat \<Rightarrow> (string option \<times> string option) list \<Rightarrow> MonitorInfo list \<Rightarrow> MonitorInfo list" where
  "decodeFrom i [] b = b"
| "decodeFrom i (f # fs) b =
     decodeFrom (Suc i) fs
       (if i < length b then b[i := setFields f (b ! i)]
        else b @ [setFields f \<lparr>Monitor = [], MonitorOutput = []\<rparr>])"

definition decodeElems :: "(string option \<times> string option) list \<Rightarrow> slice \<Rightarrow> slice" where
  "decodeElems fs s =
     (if fs = [] then \<lparr>backing = [], slen = 0\<rparr>
      else \<lparr>backing = decodeFrom 0 fs (backing s), slen = length fs\<rparr>)"

text \<open>
  Monitors files: the file of the specification; a file whose second record has a number
  where a string belongs, so that decoding it fails after its first record has been
  stored; files whose one record lacks a key.
\<close>

definition monitorsJSON :: string where
  \<open>monitorsJSON = ''[{"monitor":"DP-1","output":"eDP-1"}]''\<close>

definition brokenHdmiJSON :: string where
  \<open>brokenHdmiJSON = ''[{"monitor":"HDMI-1","output":"X"},{"monitor":7}]''\<close>

definition outputOnlyJSON :: string where
  \<open>outputOnlyJSON = ''[{"output":"Y"}]''\<close>

definition brokenDpJSON :: string where
  \<open>brokenDpJSON = ''[{"monitor":"DP-1","output":"OLD"},{"monitor":7}]''\<close>

definition monitorOnlyJSON :: string where
  \<open>monitorOnlyJSON = ''[{"monitor":"DP-1"}]''\<close>

text \<open>
  \<open>json.Unmarshal\<close> on these files; any other text is taken to be malformed, which is
  an error that leaves \<open>infos\<close> as it was.
\<close>

definition unmarshalFiles :: unmarshalMonitors where
  "unmarshalFiles text infos =
     (if text = monitorsJSON then
        (True, decodeElems [(Some ''DP-1'', Some ''eDP-1'')] infos)
      else if text = brokenHdmiJSON then
        (False, decodeElems [(Some ''HDMI-1'', Some ''X''), (None, None)] infos)
      else if text = outputOnlyJSON then
        (True, decodeElems [(None, Some ''Y'')] infos)
      else if text = brokenDpJSON then
        (False, decodeElems [(Some ''DP-1'', Some ''OLD''), (None, None)] infos)
      else if text = monitorOnlyJSON then
        (True, decodeElems [(Some ''DP-1'', None)] infos)
      else (False, infos))"

text \<open>
  An answer of the workspace query with two records on slot 1 and one on slot 11, all on
  \<open>eDP-1\<close>.
\<close>

definition twiceOneElevenJSON :: string where
  \<open>twiceOneElevenJSON =
     ''[{"name":"1","num":1,"focused":false,"urgent":true,"output":"eDP-1"},'' @
     ''{"name":"1","num":1,"focused":true,"urgent":false,"output":"eDP-1"},'' @
     ''{"name":"11","num":11,"focused":false,"urgent":false,"output":"eDP-1"}]''\<close>

definition twiceOneEleven :: "Workspace list" where
  "twiceOneEleven = [workspace 1 False True ''eDP-1'', workspace 1 True False ''eDP-1'',
                     workspace 11 False False ''eDP-1'']"

text \<open>
  Answers of the workspace query: two records with slot number 1 on \<open>eDP-1\<close>, the first
  urgent and the second focused; three records with slot number 3, of which the last one
  on \<open>eDP-1\<close> is urgent and focused; one record with slot number 11.
\<close>

definition twiceOneJSON :: string where
  \<open>twiceOneJSON =
     ''[{"name":"1","num":1,"focused":false,"urgent":true,"output":"eDP-1"},'' @
     ''{"name":"1","num":1,"focused":true,"urgent":false,"output":"eDP-1"}]''\<close>

definition twiceOne :: "Workspace list" where
  "twiceOne = [workspace 1 False True ''eDP-1'', workspace 1 True False ''eDP-1'']"

definition urgentLastJSON :: string where
  \<open>urgentLastJSON =
     ''[{"name":"3","num":3,"focused":true,"urgent":false,"output":"eDP-1"},'' @
     ''{"name":"3","num":3,"focused":true,"urgent":true,"output":"eDP-1"},'' @
     ''{"name":"3","num":3,"focused":false,"urgent":false,"output":"HDMI-1"}]''\<close>

definition urgentLast :: "Workspace list" where
  "urgentLast = [workspace 3 True False ''eDP-1'', workspace 3 True True ''eDP-1'',
                 workspace 3 False False ''HDMI-1'']"

definition elevenJSON :: string where
  \<open>elevenJSON = ''[{"name":"11","num":11,"focused":false,"urgent":false,"output":"eDP-1"}]''\<close>

definition eleven :: "Workspace list" where
  "eleven = [workspace 11 False False ''eDP-1'']"

text \<open>
  One record with slot number 0, and one with slot number -1 (which i3 reports for a
  workspace whose name has no number).
\<close>

definition zeroJSON :: string where
  \<open>zeroJSON = ''[{"name":"0","num":0,"focused":true,"urgent":false,"output":"eDP-1"}]''\<close>

definition zero :: "Workspace list" where
  "zero = [workspace 0 True False ''eDP-1'']"

definition mailJSON :: string where
  \<open>mailJSON = ''[{"name":"mail","num":-1,"focused":false,"urgent":false,"output":"eDP-1"}]''\<close>

definition mail :: "Workspace list" where
  "mail = [\<lparr>Name = ''mail'', Num = - 1, Focused = False, Urgent = False, Output = ''eDP-1''\<rparr>]"

text \<open>A host with only \<open>i3-msg\<close> on \<open>PATH\<close>, whose workspace query answers \<open>text\<close>.\<close>

definition i3Host :: "string \<Rightarrow> env" where
  "i3Host text = sampleEnv None (Some ''/usr/bin/i3-msg'') failed (exited text)"

section \<open>Auxiliary facts\<close>

lemma slots_upto: "[startWS..endWS] = [1, 2, 3, 4, 5, 6, 7, 8, 9, 10]"
  by (simp add: startWS_def endWS_def upto_rec1)

lemma initSlots_eq:
  "initSlots = ([] # replicate 10 ''unoccupied'', False # replicate 10 True)"
  unfolding initSlots_def slots_upto by (simp add: endWS_def numeral_eq_Suc)

lemma detectCommand_snd: "snd (detectCommand e ls) = ls @ [''PATH: '' @ PATH e]"
  by (simp add: detectCommand_def Let_def split: option.splits)

lemma detectCommand_fst: "fst (detectCommand e ls) = fst (detectCommand e [])"
  by (simp add: detectCommand_def Let_def split: option.splits)

lemma buttonLoop_eq:
  "buttonLoop e st vis is (parts, ls) =
     (parts @ map (\<lambda>i. btnFormat (fst (detectCommand e [])) i (vis ! nat i) (st ! nat i) i) is,
      ls @ replicate (length is) (''PATH: '' @ PATH e))"
proof (induction "is" arbitrary: parts ls)
  case Nil
  then show ?case by simp
next
  case (Cons i "is")
  obtain cmd ls' where d: "detectCommand e ls = (cmd, ls')" by (cases "detectCommand e ls")
  from d have c: "cmd = fst (detectCommand e [])" using detectCommand_fst [of e ls] by simp
  from d have l: "ls' = ls @ [''PATH: '' @ PATH e]" using detectCommand_snd [of e ls] by simp
  show ?case using Cons.IH [of "parts @ [btnFormat cmd i (vis ! nat i) (st ! nat i) i]" ls']
    by (simp add: d c l replicate_app_Cons_same)
qed

lemma assign_Inr: "assign xs n v = Inr ys \<longleftrightarrow> (0 \<le> n \<and> n < int (length xs) \<and> ys = xs[nat n := v])"
  by (auto simp: assign_def)

lemma assign_Inl: "assign xs n v = Inl p \<longleftrightarrow> (\<not> (0 \<le> n \<and> n < int (length xs)) \<and> p = IndexOutOfRange n (length xs))"
  by (auto simp: assign_def)

lemma switch_assign:
  "(if Urgent ws then assign states (Num ws) ''urgent''
    else if Focused ws then assign states (Num ws) ''focused''
    else assign states (Num ws) ''occupied'') = assign states (Num ws) (stateOf ws)"
  by (simp add: stateOf_def)

lemma markSlots_Cons:
  "markSlots output (ws # wss) (st, vis) =
     (if Output ws \<noteq> output then markSlots output wss (st, vis)
      else if 0 \<le> Num ws \<and> Num ws < int (length st) then
        (if Num ws < int (length vis) then
           markSlots output wss (st[nat (Num ws) := stateOf ws], vis[nat (Num ws) := True])
         else Inl (IndexOutOfRange (Num ws) (length vis)))
      else Inl (IndexOutOfRange (Num ws) (length st)))"
  unfolding markSlots.simps switch_assign by (simp add: assign_def)

lemma markSlots_length:
  "markSlots output wss (st, vis) = Inr (st', vis') \<Longrightarrow> length st' = length st \<and> length vis' = length vis"
proof (induction wss arbitrary: st vis)
  case Nil
  then show ?case by simp
next
  case (Cons ws wss)
  then show ?case unfolding markSlots_Cons by (fastforce split: if_splits)
qed

lemma markSlots_ok_iff:
  "length vis = length st \<Longrightarrow>
   (\<exists>r. markSlots output wss (st, vis) = Inr r) \<longleftrightarrow>
   (\<forall>ws \<in> set wss. Output ws = output \<longrightarrow> 0 \<le> Num ws \<and> Num ws < int (length st))"
proof (induction wss arbitrary: st vis)
  case Nil
  then show ?case by simp
next
  case (Cons ws wss)
  show ?case unfolding markSlots_Cons using Cons.prems Cons.IH [of vis st]
      Cons.IH [of "vis[nat (Num ws) := True]" "st[nat (Num ws) := stateOf ws]"]
    by (auto split: if_splits)
qed

lemma find_snoc:
  "find P (xs @ [x]) = (case find P xs of Some y \<Rightarrow> Some y | None \<Rightarrow> if P x then Some x else None)"
  by (induction xs) auto

lemma markSlots_state:
  "markSlots output wss (st, vis) = Inr (st', vis') \<Longrightarrow> 0 \<le> i \<Longrightarrow> i < int (length st) \<Longrightarrow>
   st' ! nat i = (case find (onSlot output i) (rev wss) of None \<Rightarrow> st ! nat i | Some ws \<Rightarrow> stateOf ws)"
proof (induction wss arbitrary: st vis)
  case Nil
  then show ?case by simp
next
  case (Cons ws wss)
  show ?case
  proof (cases "Output ws = output")
    case False
    then have n: "\<not> onSlot output i ws" by (simp add: onSlot_def)
    from False Cons.prems(1) have m: "markSlots output wss (st, vis) = Inr (st', vis')"
      unfolding markSlots_Cons by simp
    show ?thesis using Cons.IH [OF m Cons.prems(2,3)] n
      by (simp add: find_snoc split: option.splits)
  next
    case True
    then have os: "onSlot output i ws \<longleftrightarrow> Num ws = i" by (simp add: onSlot_def)
    from True Cons.prems(1) have r: "0 \<le> Num ws" "Num ws < int (length st)"
      and m: "markSlots output wss (st[nat (Num ws) := stateOf ws], vis[nat (Num ws) := True]) = Inr (st', vis')"
      unfolding markSlots_Cons by (auto split: if_splits)
    from Cons.IH [OF m Cons.prems(2)] Cons.prems(3)
    have step: "st' ! nat i = (case find (onSlot output i) (rev wss) of None \<Rightarrow> st[nat (Num ws) := stateOf ws] ! nat i | Some ws \<Rightarrow> stateOf ws)"
      by simp
    have upd: "st[nat (Num ws) := stateOf ws] ! nat i = (if Num ws = i then stateOf ws else st ! nat i)"
      using r Cons.prems(2,3) by (auto simp: nth_list_update)
    show ?thesis
    proof (cases "find (onSlot output i) (rev wss)")
      case None
      then show ?thesis using step upd os by (simp add: find_snoc)
    next
      case (Some w)
      then show ?thesis using step by (simp add: find_snoc)
    qed
  qed
qed

lemma markSlots_visible:
  "markSlots output wss (st, vis) = Inr (st', vis') \<Longrightarrow> 0 \<le> i \<Longrightarrow> i < int (length vis) \<Longrightarrow>
   vis' ! nat i = (vis ! nat i \<or> (\<exists>ws \<in> set wss. onSlot output i ws))"
proof (induction wss arbitrary: st vis)
  case Nil
  then show ?case by simp
next
  case (Cons ws wss)
  show ?case
  proof (cases "Output ws = output")
    case False
    then show ?thesis using Cons by (auto simp: onSlot_def)
  next
    case True
    with Cons.prems(1) have r: "0 \<le> Num ws" "Num ws < int (length vis)"
      and m: "markSlots output wss (st[nat (Num ws) := stateOf ws], vis[nat (Num ws) := True]) = Inr (st', vis')"
      unfolding markSlots_Cons by (auto split: if_splits)
    from Cons.IH [OF m Cons.prems(2)] Cons.prems(3)
    have "vis' ! nat i = (vis[nat (Num ws) := True] ! nat i \<or> (\<exists>ws \<in> set wss. onSlot output i ws))"
      by simp
    then show ?thesis using True r Cons.prems(2,3)
      by (auto simp: onSlot_def nth_list_update)
  qed
qed

lemma initSlots_length: "length (fst initSlots) = 11 \<and> length (snd initSlots) = 11"
  by (simp add: initSlots_eq)

lemma initSlots_nth:
  "1 \<le> i \<Longrightarrow> i \<le> 10 \<Longrightarrow> fst initSlots ! nat i = ''unoccupied'' \<and> snd initSlots ! nat i"
proof -
  assume a: "1 \<le> i" "i \<le> 10"
  then obtain k where k: "nat i = Suc k" "k < 10" by (cases "nat i") auto
  then show ?thesis by (simp add: initSlots_eq)
qed

lemma slot_value:
  assumes m: "markSlots output wss initSlots = Inr (st, vis)" and i: "1 \<le> i" "i \<le> 10"
  shows "st ! nat i = (case find (onSlot output i) (rev wss) of
                         None \<Rightarrow> ''unoccupied'' | Some ws \<Rightarrow> stateOf ws)"
    and "vis ! nat i"
proof -
  from m have m': "markSlots output wss (fst initSlots, snd initSlots) = Inr (st, vis)" by simp
  from markSlots_state [OF m', of i] i initSlots_length initSlots_nth [OF i]
  show "st ! nat i = (case find (onSlot output i) (rev wss) of
                         None \<Rightarrow> ''unoccupied'' | Some ws \<Rightarrow> stateOf ws)"
    by (simp split: option.splits)
  from markSlots_visible [OF m', of i] i initSlots_length initSlots_nth [OF i]
  show "vis ! nat i" by simp
qed

lemma markSlots_init_ok:
  "(\<exists>r. markSlots output wss initSlots = Inr r) \<longleftrightarrow>
   (\<forall>ws \<in> set wss. Output ws = output \<longrightarrow> 0 \<le> Num ws \<and> Num ws \<le> endWS)"
proof -
  have "(\<forall>ws \<in> set wss. Output ws = output \<longrightarrow> 0 \<le> Num ws \<and> Num ws < int (length (fst initSlots)))
      \<longleftrightarrow> (\<forall>ws \<in> set wss. Output ws = output \<longrightarrow> 0 \<le> Num ws \<and> Num ws \<le> endWS)"
    using initSlots_length by (simp add: endWS_def) fastforce
  then show ?thesis
    using markSlots_ok_iff [of "snd initSlots" "fst initSlots" "output" wss] initSlots_length
    by simp
qed

lemma map_slots_cong:
  "(\<And>i. 1 \<le> i \<Longrightarrow> i \<le> 10 \<Longrightarrow> f i = g i) \<Longrightarrow> map f [startWS..endWS] = map g [startWS..endWS]"
  by (simp add: startWS_def endWS_def)

lemma render_eq:
  assumes f: "fetchWorkspaces um e 500 cmdName = Inr wss"
    and m: "markSlots output wss initSlots = Inr (st, vis)"
  shows "render um e cmdName output ls =
           (Inr (), ls @ replicate 10 (pathLine e) @
              [ewwFormat (Join (map (\<lambda>i. btnFormat (detected e) i True (st ! nat i) i)
                                  [startWS..endWS]) '' '')])"
proof -
  have v: "map (\<lambda>i. btnFormat (detected e) i (vis ! nat i) (st ! nat i) i) [startWS..endWS]
         = map (\<lambda>i. btnFormat (detected e) i True (st ! nat i) i) [startWS..endWS]"
    by (rule map_slots_cong) (simp add: slot_value(2) [OF m])
  have n: "nat (endWS - startWS + 1) = 10" by (simp add: startWS_def endWS_def)
  show ?thesis
    by (simp add: render_def f m buttonLoop_eq pathLine_def detected_def [symmetric] v n)
qed

lemma render_i3_eq:
  assumes f: "fetchWorkspaces um e 500 ''i3-msg'' = Inr wss"
    and m: "markSlots output wss initSlots = Inr (st, vis)"
  shows "render_i3 um e output ls =
           (Inr (), ls @
              [ewwFormat (Join (map (\<lambda>i. btnFormat_i3 i True (st ! nat i) i)
                                  [startWS..endWS]) '' '')])"
proof -
  have v: "map (\<lambda>i. btnFormat_i3 i (vis ! nat i) (st ! nat i) i) [startWS..endWS]
         = map (\<lambda>i. btnFormat_i3 i True (st ! nat i) i) [startWS..endWS]"
    by (rule map_slots_cong) (simp add: slot_value(2) [OF m])
  show ?thesis by (simp add: render_i3_def f m v)
qed

lemma render_nil:
  assumes "fst (render um e cmdName output ls) = Inr ()"
  obtains wss st vis where "fetchWorkspaces um e 500 cmdName = Inr wss"
    and "markSlots output wss initSlots = Inr (st, vis)"
  using assms by (auto simp: render_def split: sum.splits prod.splits)

lemma render_i3_nil:
  assumes "fst (render_i3 um e output ls) = Inr ()"
  obtains wss st vis where "fetchWorkspaces um e 500 ''i3-msg'' = Inr wss"
    and "markSlots output wss initSlots = Inr (st, vis)"
  using assms by (auto simp: render_i3_def split: sum.splits prod.splits)

lemma find_last_here:
  "P x \<Longrightarrow> \<forall>y \<in> set post. \<not> P y \<Longrightarrow> find P (rev (pre @ x # post)) = Some x"
  by (induction post rule: rev_induct) (auto simp: find_snoc)

lemma render_widget:
  assumes "fetchWorkspaces um e 500 cmdName = Inr wss"
    and "markSlots output wss initSlots = Inr (st, vis)"
  shows "render um e cmdName output ls =
           (Inr (), ls @ replicate 10 (pathLine e) @
                      [widget (detected e) (\<lambda>j. True) (\<lambda>j. st ! nat j)])"
  using render_eq [OF assms] by (simp add: widget_def)

lemma render_i3_widget:
  assumes "fetchWorkspaces um e 500 ''i3-msg'' = Inr wss"
    and "markSlots output wss initSlots = Inr (st, vis)"
  shows "render_i3 um e output ls =
           (Inr (), ls @ [widget_i3 (\<lambda>j. True) (\<lambda>j. st ! nat j)])"
  using render_i3_eq [OF assms] by (simp add: widget_i3_def)

lemma last_on_slot:
  assumes m: "markSlots output (pre @ ws # post) initSlots = Inr (st, vis)"
    and ws: "Output ws = output" "startWS \<le> Num ws" "Num ws \<le> endWS"
    and post: "\<forall>w \<in> set post. \<not> onSlot output (Num ws) w"
  shows "st ! nat (Num ws) = stateOf ws"
proof -
  have i: "1 \<le> Num ws" "Num ws \<le> 10" using ws(2,3) by (simp_all add: startWS_def endWS_def)
  have "onSlot output (Num ws) ws" using ws(1) by (simp add: onSlot_def)
  then have "find (onSlot output (Num ws)) (rev (pre @ ws # post)) = Some ws"
    using post by (rule find_last_here)
  then show ?thesis using slot_value(1) [OF m i] by simp
qed

lemma find_none_iff: "find P (rev xs) = None \<longleftrightarrow> (\<forall>x \<in> set xs. \<not> P x)"
  by (auto simp: find_None_iff)

lemma findMonitor_none:
  "\<forall>mi \<in> set infos. Monitor mi \<noteq> monitor \<Longrightarrow>
   findMonitor path monitor infos = Inl (MonitorNotFound monitor path)"
  by (induction infos) auto

lemma findMonitor_find:
  "find (\<lambda>mi. Monitor mi = monitor) infos = Some mi \<Longrightarrow>
   findMonitor path monitor infos = Inr (MonitorOutput mi)"
  by (induction infos) (auto split: if_splits)

lemma fetchWorkspaces_fails:
  "\<not> runCtx timeout (run e cmdName [''-t'', ''get_workspaces''])
     \<or> um (out (run e cmdName [''-t'', ''get_workspaces''])) = None \<Longrightarrow>
   \<exists>err. fetchWorkspaces um e timeout cmdName = Inl err"
  by (auto simp: fetchWorkspaces_def Let_def)

section \<open>The claims\<close>

text \<open>
  Claim C1 says that a record on the target output whose slot number is outside 1..10 is
  silently ignored. The code has no bounds check: for the answer that holds one record
  with slot number 11 on the target output, the assignment to \<open>states[11]\<close> is out of
  range for the slice of length 11, so both variants of \<open>render\<close> panic and print
  nothing.
\<close>

theorem render_panics_on_slot_11:
  "fetchWorkspaces (decodes elevenJSON eleven) (i3Host elevenJSON) 500 ''/usr/bin/i3-msg''
     = Inr [workspace 11 False False ''eDP-1'']
   \<and> render (decodes elevenJSON eleven) (i3Host elevenJSON) ''/usr/bin/i3-msg'' ''eDP-1'' []
     = (Inl (Panic (IndexOutOfRange 11 11)), [])
   \<and> render_i3 (decodes elevenJSON eleven) (i3Host elevenJSON) ''eDP-1'' []
     = (Inl (Panic (IndexOutOfRange 11 11)), [])"
  by code_simp

text \<open>
  A negative slot number panics in the same way, while slot number 0 is within the
  slices: the record is written to the unused element 0 and the markup is the one of an
  empty answer.
\<close>

lemma render_negative_slot:
  "render (decodes mailJSON mail) (i3Host mailJSON) ''/usr/bin/i3-msg'' ''eDP-1'' []
     = (Inl (Panic (IndexOutOfRange (- 1) 11)), [])
   \<and> render_i3 (decodes mailJSON mail) (i3Host mailJSON) ''eDP-1'' []
     = (Inl (Panic (IndexOutOfRange (- 1) 11)), [])"
  by code_simp

lemma render_slot_0:
  "render (decodes zeroJSON zero) (i3Host zeroJSON) ''/usr/bin/i3-msg'' ''eDP-1'' []
     = render (decodes ''[]'' []) (i3Host ''[]'') ''/usr/bin/i3-msg'' ''eDP-1'' []
   \<and> render_i3 (decodes zeroJSON zero) (i3Host zeroJSON) ''eDP-1'' []
     = render_i3 (decodes ''[]'' []) (i3Host ''[]'') ''eDP-1'' []"
  by code_simp

text \<open>
  Claim C2 says that a successful render cycle writes only the widget line to standard
  output. In the auto-detecting variant every iteration of the button loop calls
  \<open>detectCommand\<close>, which prints the value of \<open>PATH\<close>: with an empty workspace list
  the cycle writes ten such lines before the widget line. The \<open>render\<close> of
  \<open>program.go\<close> writes the widget line alone.
\<close>

theorem render_prints_PATH_lines:
  "render (decodes ''[]'' []) (i3Host ''[]'') ''/usr/bin/i3-msg'' ''eDP-1'' []
     = (Inr (),
        [''PATH: /usr/bin'', ''PATH: /usr/bin'', ''PATH: /usr/bin'', ''PATH: /usr/bin'',
         ''PATH: /usr/bin'', ''PATH: /usr/bin'', ''PATH: /usr/bin'', ''PATH: /usr/bin'',
         ''PATH: /usr/bin'', ''PATH: /usr/bin'',
         widget ''/usr/bin/i3-msg'' (\<lambda>i. True) (\<lambda>i. ''unoccupied'')])
   \<and> render_i3 (decodes ''[]'' []) (i3Host ''[]'') ''eDP-1'' []
     = (Inr (), [widget_i3 (\<lambda>i. True) (\<lambda>i. ''unoccupied'')])"
  by code_simp

text \<open>
  Claim C3 as stated (every urgent record on the target output makes its slot urgent)
  fails when a later record carries the same slot number: the answer holds an urgent
  record and then a focused, not urgent record, both with slot number 1 on \<open>eDP-1\<close>,
  and the button of slot 1 gets the class \<open>focused\<close>.
\<close>

theorem urgent_overwritten_by_later_record:
  "Urgent (workspace 1 False True ''eDP-1'') \<and> Output (workspace 1 False True ''eDP-1'') = ''eDP-1''
   \<and> fetchWorkspaces (decodes twiceOneJSON twiceOne) (i3Host twiceOneJSON) 500 ''/usr/bin/i3-msg''
       = Inr [workspace 1 False True ''eDP-1'', workspace 1 True False ''eDP-1'']
   \<and> render (decodes twiceOneJSON twiceOne) (i3Host twiceOneJSON) ''/usr/bin/i3-msg'' ''eDP-1'' []
       = (Inr (),
          replicate 10 ''PATH: /usr/bin'' @
          [ewwFormat (Join
             [btnFormat ''/usr/bin/i3-msg'' 1 True ''focused'' 1,
              btnFormat ''/usr/bin/i3-msg'' 2 True ''unoccupied'' 2,
              btnFormat ''/usr/bin/i3-msg'' 3 True ''unoccupied'' 3,
              btnFormat ''/usr/bin/i3-msg'' 4 True ''unoccupied'' 4,
              btnFormat ''/usr/bin/i3-msg'' 5 True ''unoccupied'' 5,
              btnFormat ''/usr/bin/i3-msg'' 6 True ''unoccupied'' 6,
              btnFormat ''/usr/bin/i3-msg'' 7 True ''unoccupied'' 7,
              btnFormat ''/usr/bin/i3-msg'' 8 True ''unoccupied'' 8,
              btnFormat ''/usr/bin/i3-msg'' 9 True ''unoccupied'' 9,
              btnFormat ''/usr/bin/i3-msg'' 10 True ''unoccupied'' 10] '' '')])"
  by code_simp

text \<open>
  Claim C3, amended: in a successful render cycle, for every record on the target output
  with a slot number in 1..10 that no later record on that output shares, the class of
  its slot in the markup is \<open>urgent\<close> when the record is urgent, whatever its focused
  flag, else \<open>focused\<close> when it is focused, else \<open>occupied\<close>.
\<close>

theorem urgent_when_last_on_slot:
  assumes "wss = pre @ ws # post" and "Output ws = output"
    and "startWS \<le> Num ws" and "Num ws \<le> endWS"
    and "\<forall>w \<in> set post. \<not> onSlot output (Num ws) w"
  shows "(fetchWorkspaces um e 500 cmdName = Inr wss \<and> fst (render um e cmdName output ls) = Inr ()
           \<longrightarrow> (\<exists>st. snd (render um e cmdName output ls)
                         = ls @ replicate 10 (pathLine e) @ [widget (detected e) (\<lambda>j. True) st]
                     \<and> st (Num ws) = (if Urgent ws then ''urgent''
                                       else if Focused ws then ''focused'' else ''occupied'')))
       \<and> (fetchWorkspaces um e 500 ''i3-msg'' = Inr wss \<and> fst (render_i3 um e output ls) = Inr ()
           \<longrightarrow> (\<exists>st. snd (render_i3 um e output ls) = ls @ [widget_i3 (\<lambda>j. True) st]
                     \<and> st (Num ws) = (if Urgent ws then ''urgent''
                                       else if Focused ws then ''focused'' else ''occupied'')))"
proof (intro conjI impI)
  assume a: "fetchWorkspaces um e 500 cmdName = Inr wss \<and> fst (render um e cmdName output ls) = Inr ()"
  then obtain wss' st vis where "fetchWorkspaces um e 500 cmdName = Inr wss'"
    and "markSlots output wss' initSlots = Inr (st, vis)" by (auto elim: render_nil)
  with a have m: "markSlots output wss initSlots = Inr (st, vis)" by simp
  from a m have "snd (render um e cmdName output ls)
      = ls @ replicate 10 (pathLine e) @ [widget (detected e) (\<lambda>j. True) (\<lambda>j. st ! nat j)]"
    by (simp add: render_widget)
  moreover have "st ! nat (Num ws) = stateOf ws"
    using last_on_slot [OF m [unfolded assms(1)] assms(2-5)] .
  ultimately show "\<exists>st. snd (render um e cmdName output ls)
                         = ls @ replicate 10 (pathLine e) @ [widget (detected e) (\<lambda>j. True) st]
                     \<and> st (Num ws) = (if Urgent ws then ''urgent''
                                       else if Focused ws then ''focused'' else ''occupied'')"
    unfolding stateOf_def by blast
next
  assume a: "fetchWorkspaces um e 500 ''i3-msg'' = Inr wss \<and> fst (render_i3 um e output ls) = Inr ()"
  then obtain wss' st vis where "fetchWorkspaces um e 500 ''i3-msg'' = Inr wss'"
    and "markSlots output wss' initSlots = Inr (st, vis)" by (auto elim: render_i3_nil)
  with a have m: "markSlots output wss initSlots = Inr (st, vis)" by simp
  from a m have "snd (render_i3 um e output ls) = ls @ [widget_i3 (\<lambda>j. True) (\<lambda>j. st ! nat j)]"
    by (simp add: render_i3_widget)
  moreover have "st ! nat (Num ws) = stateOf ws"
    using last_on_slot [OF m [unfolded assms(1)] assms(2-5)] .
  ultimately show "\<exists>st. snd (render_i3 um e output ls) = ls @ [widget_i3 (\<lambda>j. True) st]
                     \<and> st (Num ws) = (if Urgent ws then ''urgent''
                                       else if Focused ws then ''focused'' else ''occupied'')"
    unfolding stateOf_def by blast
qed

text \<open>An instance: of the two records with slot number 3 on \<open>eDP-1\<close> the last one is urgent and focused, and slot 3 is \<open>urgent\<close>.\<close>

theorem urgent_when_last_on_slot_witness:
  "urgentLast = [workspace 3 True False ''eDP-1''] @ workspace 3 True True ''eDP-1''
                  # [workspace 3 False False ''HDMI-1'']
   \<and> Output (workspace 3 True True ''eDP-1'') = ''eDP-1''
   \<and> startWS \<le> Num (workspace 3 True True ''eDP-1'')
   \<and> Num (workspace 3 True True ''eDP-1'') \<le> endWS
   \<and> (fetchWorkspaces (decodes urgentLastJSON urgentLast) (i3Host urgentLastJSON) 500
          ''/usr/bin/i3-msg'' = Inr urgentLast
        \<and> fst (render (decodes urgentLastJSON urgentLast) (i3Host urgentLastJSON)
                ''/usr/bin/i3-msg'' ''eDP-1'' []) = Inr ())
   \<and> (\<exists>st. snd (render (decodes urgentLastJSON urgentLast) (i3Host urgentLastJSON)
                    ''/usr/bin/i3-msg'' ''eDP-1'' [])
               = replicate 10 (pathLine (i3Host urgentLastJSON)) @
                   [widget (detected (i3Host urgentLastJSON)) (\<lambda>j. True) st]
           \<and> st 3 = ''urgent'')
   \<and> (fetchWorkspaces (decodes urgentLastJSON urgentLast) (i3Host urgentLastJSON) 500 ''i3-msg''
          = Inr urgentLast
        \<and> fst (render_i3 (decodes urgentLastJSON urgentLast) (i3Host urgentLastJSON) ''eDP-1'' [])
            = Inr ())
   \<and> (\<exists>st. snd (render_i3 (decodes urgentLastJSON urgentLast) (i3Host urgentLastJSON) ''eDP-1'' [])
               = [widget_i3 (\<lambda>j. True) st]
           \<and> st 3 = ''urgent'')"
  (is "?H1 \<and> ?H2 \<and> ?H3 \<and> ?H4 \<and> ?A \<and> ?B \<and> ?A' \<and> ?B'")
proof -
  have h1: ?H1 by code_simp
  have h2: ?H2 by code_simp
  have h3: ?H3 by code_simp
  have h4: ?H4 by code_simp
  have h5: "\<forall>w \<in> set [workspace 3 False False ''HDMI-1''].
              \<not> onSlot ''eDP-1'' (Num (workspace 3 True True ''eDP-1'')) w"
    by code_simp
  have a: ?A by code_simp
  have a': ?A' by code_simp
  note t = urgent_when_last_on_slot [OF h1 h2 h3 h4 h5]
  have b: ?B using t [THEN conjunct1, THEN mp, OF a] by (simp add: workspace_def)
  have b': ?B' using t [THEN conjunct2, THEN mp, OF a'] by (simp add: workspace_def)
  show ?thesis using h1 h2 h3 h4 a b a' b' by blast
qed

text \<open>
  Claim C4 says that a monitors file that parses and holds no record with the requested
  monitor name makes resolution fail with the not-found error. Both polling variants
  decode every retry into the same \<open>infos\<close>: when a first read fails to decode after storing
  a record of \<open>HDMI-1\<close>, and the next read is a file whose one record has no \<open>monitor\<close>
  key, the stored name survives and the request for \<open>HDMI-1\<close> succeeds with \<open>Y\<close>. The
  single-shot \<open>readMonitors\<close> reports not-found for that file.
\<close>

theorem stale_monitor_name_is_found:
  "readMonitorOutput unmarshalFiles ''/tmp/monitors.json'' ''HDMI-1''
     [ReadOk brokenHdmiJSON, ReadOk outputOnlyJSON, ReadErr []]
     = (Inr ''Y'', [ReadErr []])
   \<and> ReadMonitorOutput unmarshalFiles ''/tmp/monitors.json'' ''HDMI-1''
     [ReadOk brokenHdmiJSON, ReadOk outputOnlyJSON, ReadErr []]
     = (Inr ''Y'', [ReadErr []])
   \<and> readMonitors unmarshalFiles ''/tmp/monitors.json'' ''HDMI-1'' (ReadOk outputOnlyJSON)
     = Inl (MonitorNotFound ''HDMI-1'' [])"
  by code_simp

text \<open>
  What the code does in general: once a decode has succeeded, with the ticks \<open>rs'\<close> left
  before the deadline, and no element that it left in \<open>infos\<close> has the requested name, the
  not-found error is returned and the ticks left are still \<open>rs'\<close>.
\<close>

lemma not_found_after_decode:
  assumes "\<forall>mi \<in> set (elems infos). Monitor mi \<noteq> monitor"
  shows "(waitForFile path reads = (Inr d, rs)
            \<and> unmarshalLoop um path d nilSlice rs = (Inr infos, rs')
            \<longrightarrow> readMonitorOutput um path monitor reads = (Inl (MonitorNotFound monitor path), rs')
              \<and> ReadMonitorOutput um path monitor reads = (Inl (MonitorNotFound monitor path), rs'))
       \<and> (um d' nilSlice = (True, infos)
            \<longrightarrow> readMonitors um path monitor (ReadOk d') = Inl (MonitorNotFound monitor []))"
  using findMonitor_none [OF assms]
  by (simp add: readMonitorOutput_def ReadMonitorOutput_def readMonitors_def)

text \<open>
  Claim C5: in a successful render cycle, every slot \<open>i\<close> in 1..10 that no record on the
  target output carries has the class \<open>unoccupied\<close> and the visibility flag \<open>true\<close> in
  the markup, in both variants of \<open>render\<close>.
\<close>

theorem unoccupied_default:
  assumes "startWS \<le> i" and "i \<le> endWS" and "\<forall>ws \<in> set wss. \<not> onSlot output i ws"
  shows "(fetchWorkspaces um e 500 cmdName = Inr wss \<and> fst (render um e cmdName output ls) = Inr ()
           \<longrightarrow> (\<exists>st. snd (render um e cmdName output ls)
                         = ls @ replicate 10 (pathLine e) @ [widget (detected e) (\<lambda>j. True) st]
                     \<and> st i = ''unoccupied''))
       \<and> (fetchWorkspaces um e 500 ''i3-msg'' = Inr wss \<and> fst (render_i3 um e output ls) = Inr ()
           \<longrightarrow> (\<exists>st. snd (render_i3 um e output ls) = ls @ [widget_i3 (\<lambda>j. True) st]
                     \<and> st i = ''unoccupied''))"
proof (intro conjI impI)
  have i: "1 \<le> i" "i \<le> 10" using assms(1,2) by (simp_all add: startWS_def endWS_def)
  have none: "find (onSlot output i) (rev wss) = None" using assms(3) by (simp add: find_none_iff)
  {
    assume a: "fetchWorkspaces um e 500 cmdName = Inr wss \<and> fst (render um e cmdName output ls) = Inr ()"
    then obtain wss' st vis where "fetchWorkspaces um e 500 cmdName = Inr wss'"
      and "markSlots output wss' initSlots = Inr (st, vis)" by (auto elim: render_nil)
    with a have m: "markSlots output wss initSlots = Inr (st, vis)" by simp
    from a m have "snd (render um e cmdName output ls)
        = ls @ replicate 10 (pathLine e) @ [widget (detected e) (\<lambda>j. True) (\<lambda>j. st ! nat j)]"
      by (simp add: render_eq widget_def)
    moreover have "st ! nat i = ''unoccupied''" using slot_value(1) [OF m i] none by simp
    ultimately show "\<exists>st. snd (render um e cmdName output ls)
                         = ls @ replicate 10 (pathLine e) @ [widget (detected e) (\<lambda>j. True) st]
                     \<and> st i = ''unoccupied''" by blast
  }
  {
    assume a: "fetchWorkspaces um e 500 ''i3-msg'' = Inr wss \<and> fst (render_i3 um e output ls) = Inr ()"
    then obtain wss' st vis where "fetchWorkspaces um e 500 ''i3-msg'' = Inr wss'"
      and "markSlots output wss' initSlots = Inr (st, vis)" by (auto elim: render_i3_nil)
    with a have m: "markSlots output wss initSlots = Inr (st, vis)" by simp
    from a m have "snd (render_i3 um e output ls) = ls @ [widget_i3 (\<lambda>j. True) (\<lambda>j. st ! nat j)]"
      by (simp add: render_i3_eq widget_i3_def)
    moreover have "st ! nat i = ''unoccupied''" using slot_value(1) [OF m i] none by simp
    ultimately show "\<exists>st. snd (render_i3 um e output ls) = ls @ [widget_i3 (\<lambda>j. True) st]
                     \<and> st i = ''unoccupied''" by blast
  }
qed

text \<open>An instance: both records are on slot 1, so slot 2 is unoccupied.\<close>

theorem unoccupied_default_witness:
  "startWS \<le> 2 \<and> 2 \<le> endWS
   \<and> (fetchWorkspaces (decodes twiceOneJSON twiceOne) (i3Host twiceOneJSON) 500 ''/usr/bin/i3-msg''
          = Inr twiceOne
        \<and> fst (render (decodes twiceOneJSON twiceOne) (i3Host twiceOneJSON) ''/usr/bin/i3-msg''
                ''eDP-1'' []) = Inr ())
   \<and> (\<exists>st. snd (render (decodes twiceOneJSON twiceOne) (i3Host twiceOneJSON) ''/usr/bin/i3-msg''
                    ''eDP-1'' [])
               = [] @ replicate 10 (pathLine (i3Host twiceOneJSON)) @
                   [widget (detected (i3Host twiceOneJSON)) (\<lambda>j. True) st]
           \<and> st 2 = ''unoccupied'')
   \<and> (fetchWorkspaces (decodes twiceOneJSON twiceOne) (i3Host twiceOneJSON) 500 ''i3-msg''
          = Inr twiceOne
        \<and> fst (render_i3 (decodes twiceOneJSON twiceOne) (i3Host twiceOneJSON) ''eDP-1'' []) = Inr ())
   \<and> (\<exists>st. snd (render_i3 (decodes twiceOneJSON twiceOne) (i3Host twiceOneJSON) ''eDP-1'' [])
               = [] @ [widget_i3 (\<lambda>j. True) st]
           \<and> st 2 = ''unoccupied'')"
  (is "?H1 \<and> ?H2 \<and> ?A \<and> ?B \<and> ?A' \<and> ?B'")
proof -
  have h1: ?H1 by code_simp
  have h2: ?H2 by code_simp
  have h3: "\<forall>ws \<in> set twiceOne. \<not> onSlot ''eDP-1'' 2 ws" by code_simp
  have a: ?A by code_simp
  have a': ?A' by code_simp
  note t = unoccupied_default [OF h1 h2 h3]
  have b: ?B by (rule t [THEN conjunct1, THEN mp, OF a])
  have b': ?B' by (rule t [THEN conjunct2, THEN mp, OF a'])
  show ?thesis using h1 h2 a b a' b' by blast
qed

text \<open>
  Claim C6: when the workspace query fails (the command does not exit with status 0
  within the timeout, or its output does not parse), \<open>render\<close> returns that error and
  standard output is unchanged. In the event loop such an event adds one entry to the log
  and nothing to standard output, and the loop goes on: it ends normally when this was
  the last event, it treats the remaining events as it would have without this one, and
  a following event whose render succeeds gets its lines printed.
\<close>

theorem failed_fetch_skips_cycle:
  assumes "\<not> runCtx 500 (run e cmdName [''-t'', ''get_workspaces''])
             \<or> um (out (run e cmdName [''-t'', ''get_workspaces''])) = None"
    and "err = (if \<not> runCtx 500 (run e cmdName [''-t'', ''get_workspaces''])
                then GetWorkspaces cmdName else UnmarshalWorkspaces)"
  shows "render um e cmdName output ls = (Inl (Err err), ls)
       \<and> scanLoop um cmdName output [e] s
           = (Inr (), s\<lparr>logged := logged s @ [(''render error:'', err)]\<rparr>)
       \<and> scanLoop um cmdName output (e # es) s
           = scanLoop um cmdName output es (s\<lparr>logged := logged s @ [(''render error:'', err)]\<rparr>)
       \<and> (fst (render um e' cmdName output (stdout s)) = Inr ()
           \<longrightarrow> scanLoop um cmdName output [e, e'] s
                 = (Inr (), s\<lparr>stdout := snd (render um e' cmdName output (stdout s)),
                              logged := logged s @ [(''render error:'', err)]\<rparr>))"
proof -
  have f: "fetchWorkspaces um e 500 cmdName = Inl err"
    using assms by (auto simp: fetchWorkspaces_def Let_def)
  then have r: "render um e cmdName output ls = (Inl (Err err), ls)" for ls
    by (simp add: render_def)
  have one: "scanLoop um cmdName output (e # es) s
      = scanLoop um cmdName output es (s\<lparr>logged := logged s @ [(''render error:'', err)]\<rparr>)"
    for es
    by (simp add: r)
  have two: "fst (render um e' cmdName output (stdout s)) = Inr ()
      \<longrightarrow> scanLoop um cmdName output [e, e'] s
            = (Inr (), s\<lparr>stdout := snd (render um e' cmdName output (stdout s)),
                         logged := logged s @ [(''render error:'', err)]\<rparr>)"
  proof
    assume ok: "fst (render um e' cmdName output (stdout s)) = Inr ()"
    obtain lines where l: "render um e' cmdName output (stdout s) = (Inr (), lines)"
      using ok by (cases "render um e' cmdName output (stdout s)") auto
    have "scanLoop um cmdName output [e, e'] s
            = scanLoop um cmdName output [e'] (s\<lparr>logged := logged s @ [(''render error:'', err)]\<rparr>)"
      by (rule one)
    also have "\<dots> = (Inr (), s\<lparr>stdout := snd (render um e' cmdName output (stdout s)),
                              logged := logged s @ [(''render error:'', err)]\<rparr>)"
      by (simp add: l)
    finally show "scanLoop um cmdName output [e, e'] s
            = (Inr (), s\<lparr>stdout := snd (render um e' cmdName output (stdout s)),
                         logged := logged s @ [(''render error:'', err)]\<rparr>)" .
  qed
  have last: "scanLoop um cmdName output [e] s
      = (Inr (), s\<lparr>logged := logged s @ [(''render error:'', err)]\<rparr>)"
    unfolding one [of "[]"] by simp
  show ?thesis using r last one two by blast
qed

text \<open>
  An instance: the workspace query fails in the first of two events and succeeds with an
  empty answer in the second.
\<close>

theorem failed_fetch_skips_cycle_witness:
  "\<not> runCtx 500 (run (sampleEnv None (Some ''/usr/bin/i3-msg'') failed failed) ''/usr/bin/i3-msg''
                    [''-t'', ''get_workspaces''])
   \<and> render (decodes ''[]'' []) (sampleEnv None (Some ''/usr/bin/i3-msg'') failed failed)
         ''/usr/bin/i3-msg'' ''eDP-1'' [] = (Inl (Err (GetWorkspaces ''/usr/bin/i3-msg'')), [])
   \<and> scanLoop (decodes ''[]'' []) ''/usr/bin/i3-msg'' ''eDP-1''
         [sampleEnv None (Some ''/usr/bin/i3-msg'') failed failed]
         \<lparr>stdout = [], logged = []\<rparr>
       = (Inr (), \<lparr>stdout = [],
                   logged = [(''render error:'', GetWorkspaces ''/usr/bin/i3-msg'')]\<rparr>)
   \<and> fst (render (decodes ''[]'' []) (i3Host ''[]'') ''/usr/bin/i3-msg'' ''eDP-1'' []) = Inr ()
   \<and> scanLoop (decodes ''[]'' []) ''/usr/bin/i3-msg'' ''eDP-1''
         [sampleEnv None (Some ''/usr/bin/i3-msg'') failed failed, i3Host ''[]'']
         \<lparr>stdout = [], logged = []\<rparr>
       = (Inr (),
          \<lparr>stdout = replicate 10 ''PATH: /usr/bin'' @
                      [widget ''/usr/bin/i3-msg'' (\<lambda>i. True) (\<lambda>i. ''unoccupied'')],
           logged = [(''render error:'', GetWorkspaces ''/usr/bin/i3-msg'')]\<rparr>)"
  (is "?H \<and> ?R \<and> ?One \<and> ?Ok \<and> ?Two")
proof -
  have h: ?H by (simp add: sampleEnv_def failed_def runCtx_def)
  have e: "GetWorkspaces ''/usr/bin/i3-msg''
      = (if \<not> runCtx 500 (run (sampleEnv None (Some ''/usr/bin/i3-msg'') failed failed)
                              ''/usr/bin/i3-msg'' [''-t'', ''get_workspaces''])
         then GetWorkspaces ''/usr/bin/i3-msg'' else UnmarshalWorkspaces)"
    using h by simp
  have ok: ?Ok by code_simp
  have lines: "snd (render (decodes ''[]'' []) (i3Host ''[]'') ''/usr/bin/i3-msg'' ''eDP-1'' [])
      = replicate 10 ''PATH: /usr/bin'' @
          [widget ''/usr/bin/i3-msg'' (\<lambda>i. True) (\<lambda>i. ''unoccupied'')]"
    by code_simp
  note t = failed_fetch_skips_cycle
    [of "sampleEnv None (Some ''/usr/bin/i3-msg'') failed failed" "''/usr/bin/i3-msg''"
        "decodes ''[]'' []" _ "''eDP-1''", OF disjI1 [OF h] e]
  have r: ?R by (rule t [THEN conjunct1])
  have one: ?One
    using t [THEN conjunct2, THEN conjunct1, of "\<lparr>stdout = [], logged = []\<rparr>"] by simp
  have two: ?Two
    using t [THEN conjunct2, THEN conjunct2, THEN conjunct2, THEN mp,
             of "i3Host ''[]''" "\<lparr>stdout = [], logged = []\<rparr>"] ok lines
    by simp
  show ?thesis using h r one ok two by blast
qed

text \<open>
  Claim C7 says that a list with several records on the target output for one slot in
  1..10 never makes \<open>render\<close> fail. The unchecked assignment to \<open>states[ws.Num]\<close> that
  breaks claim C1 breaks this too: with two records on slot 1 and one on slot 11, all on
  the target output, both variants of \<open>render\<close> panic and print nothing.
\<close>

theorem duplicates_beside_slot_11_panic:
  "fetchWorkspaces (decodes twiceOneElevenJSON twiceOneEleven) (i3Host twiceOneElevenJSON) 500
       ''/usr/bin/i3-msg''
     = Inr [workspace 1 False True ''eDP-1'', workspace 1 True False ''eDP-1'',
            workspace 11 False False ''eDP-1'']
   \<and> render (decodes twiceOneElevenJSON twiceOneEleven) (i3Host twiceOneElevenJSON)
       ''/usr/bin/i3-msg'' ''eDP-1'' []
     = (Inl (Panic (IndexOutOfRange 11 11)), [])
   \<and> render_i3 (decodes twiceOneElevenJSON twiceOneEleven) (i3Host twiceOneElevenJSON)
       ''eDP-1'' []
     = (Inl (Panic (IndexOutOfRange 11 11)), [])"
  by code_simp

text \<open>
  What the code does when the records on the target output all have slot numbers within
  the slices (0..10): \<open>render\<close> succeeds however many of them share a slot number, and
  the class of a slot in 1..10 is the one written for the last record on the target
  output with that slot number.
\<close>

lemma duplicates_last_wins:
  assumes "wss = pre @ ws # post" and "Output ws = output"
    and "startWS \<le> Num ws" and "Num ws \<le> endWS"
    and "\<forall>w \<in> set post. \<not> onSlot output (Num ws) w"
    and "\<forall>w \<in> set wss. Output w = output \<longrightarrow> 0 \<le> Num w \<and> Num w \<le> endWS"
  shows "(fetchWorkspaces um e 500 cmdName = Inr wss
           \<longrightarrow> (\<exists>st. render um e cmdName output ls
                         = (Inr (), ls @ replicate 10 (pathLine e) @
                                      [widget (detected e) (\<lambda>j. True) st])
                     \<and> st (Num ws) = stateOf ws))
       \<and> (fetchWorkspaces um e 500 ''i3-msg'' = Inr wss
           \<longrightarrow> (\<exists>st. render_i3 um e output ls = (Inr (), ls @ [widget_i3 (\<lambda>j. True) st])
                     \<and> st (Num ws) = stateOf ws))"
proof -
  from assms(6) obtain st vis where m: "markSlots output wss initSlots = Inr (st, vis)"
    using markSlots_init_ok [of "output" wss] by auto
  have s: "st ! nat (Num ws) = stateOf ws"
    using last_on_slot [OF m [unfolded assms(1)] assms(2-5)] .
  show ?thesis
  proof (intro conjI impI)
    assume "fetchWorkspaces um e 500 cmdName = Inr wss"
    from render_widget [OF this m] s
    show "\<exists>st. render um e cmdName output ls
                 = (Inr (), ls @ replicate 10 (pathLine e) @ [widget (detected e) (\<lambda>j. True) st])
               \<and> st (Num ws) = stateOf ws" by blast
  next
    assume "fetchWorkspaces um e 500 ''i3-msg'' = Inr wss"
    from render_i3_widget [OF this m] s
    show "\<exists>st. render_i3 um e output ls = (Inr (), ls @ [widget_i3 (\<lambda>j. True) st])
               \<and> st (Num ws) = stateOf ws" by blast
  qed
qed

text \<open>
  Claim C8: \<open>detectCommand\<close> returns the path of \<open>swaymsg\<close> when it is on \<open>PATH\<close> and
  its version query succeeds within 300ms, whatever holds for \<open>i3-msg\<close>; otherwise the
  path of \<open>i3-msg\<close> when it is on \<open>PATH\<close>, without running it; otherwise the bare name
  \<open>i3-msg\<close>.
\<close>

theorem detectCommand_precedence:
  "(lookPath e ''swaymsg'' = Some p \<and> runCtx 300 (run e p [''-t'', ''get_version''])
      \<longrightarrow> fst (detectCommand e ls) = p)
   \<and> ((\<forall>p. lookPath e ''swaymsg'' = Some p \<longrightarrow> \<not> runCtx 300 (run e p [''-t'', ''get_version'']))
      \<longrightarrow> (lookPath e ''i3-msg'' = Some q \<longrightarrow> fst (detectCommand e ls) = q)
        \<and> (lookPath e ''i3-msg'' = None \<longrightarrow> fst (detectCommand e ls) = ''i3-msg''))"
  by (auto simp: detectCommand_def Let_def split: option.splits)

text \<open>Instances: both tools present and the version query succeeding; the version query failing; neither tool on \<open>PATH\<close>.\<close>

theorem detectCommand_precedence_witness:
  "(lookPath (sampleEnv (Some ''/usr/bin/swaymsg'') (Some ''/usr/bin/i3-msg'') (exited []) failed)
       ''swaymsg'' = Some ''/usr/bin/swaymsg''
     \<and> runCtx 300 (run (sampleEnv (Some ''/usr/bin/swaymsg'') (Some ''/usr/bin/i3-msg'') (exited [])
                          failed) ''/usr/bin/swaymsg'' [''-t'', ''get_version'']))
   \<and> fst (detectCommand
            (sampleEnv (Some ''/usr/bin/swaymsg'') (Some ''/usr/bin/i3-msg'') (exited []) failed) [])
       = ''/usr/bin/swaymsg''
   \<and> \<not> runCtx 300 (run (sampleEnv (Some ''/usr/bin/swaymsg'') (Some ''/usr/bin/i3-msg'')
                          failed failed) ''/usr/bin/swaymsg'' [''-t'', ''get_version''])
   \<and> lookPath (sampleEnv (Some ''/usr/bin/swaymsg'') (Some ''/usr/bin/i3-msg'') failed failed)
        ''i3-msg'' = Some ''/usr/bin/i3-msg''
   \<and> fst (detectCommand
            (sampleEnv (Some ''/usr/bin/swaymsg'') (Some ''/usr/bin/i3-msg'') failed failed) [])
       = ''/usr/bin/i3-msg''
   \<and> lookPath (sampleEnv None None failed failed) ''swaymsg'' = None
   \<and> lookPath (sampleEnv None None failed failed) ''i3-msg'' = None
   \<and> fst (detectCommand (sampleEnv None None failed failed) []) = ''i3-msg''"
  (is "?A1 \<and> ?B1 \<and> ?N2 \<and> ?L2 \<and> ?B2 \<and> ?N3 \<and> ?L3 \<and> ?B3")
proof -
  have a1: ?A1 by (simp add: sampleEnv_def exited_def runCtx_def)
  have n2: ?N2 by (simp add: sampleEnv_def failed_def runCtx_def)
  have a2: "\<forall>p. lookPath (sampleEnv (Some ''/usr/bin/swaymsg'') (Some ''/usr/bin/i3-msg'') failed
                          failed) ''swaymsg'' = Some p
              \<longrightarrow> \<not> runCtx 300 (run (sampleEnv (Some ''/usr/bin/swaymsg'') (Some ''/usr/bin/i3-msg'')
                                       failed failed) p [''-t'', ''get_version''])"
    by (simp add: sampleEnv_def failed_def runCtx_def)
  have l2: ?L2 by (simp add: sampleEnv_def)
  have n3: ?N3 by (simp add: sampleEnv_def)
  have a3: "\<forall>p. lookPath (sampleEnv None None failed failed) ''swaymsg'' = Some p
              \<longrightarrow> \<not> runCtx 300 (run (sampleEnv None None failed failed) p
                                  [''-t'', ''get_version''])"
    by (simp add: sampleEnv_def)
  have l3: ?L3 by (simp add: sampleEnv_def)
  have b1: ?B1 by (rule detectCommand_precedence [THEN conjunct1, THEN mp, OF a1])
  have b2: ?B2
    by (rule detectCommand_precedence [THEN conjunct2, THEN mp, OF a2, THEN conjunct1, THEN mp, OF l2])
  have b3: ?B3
    by (rule detectCommand_precedence [THEN conjunct2, THEN mp, OF a3, THEN conjunct2, THEN mp, OF l3])
  show ?thesis using a1 b1 n2 l2 b2 n3 l3 b3 by blast
qed

text \<open>
  Claim C9 says that resolution returns the output field of the record of the parsed file
  whose monitor field equals the requested name. In both polling variants a field that
  the record lacks keeps what an earlier, failed decode stored: after a first read that
  fails to decode with \<open>OLD\<close> stored for \<open>DP-1\<close>, the file whose record for \<open>DP-1\<close> has no
  \<open>output\<close> key yields \<open>OLD\<close>. The single-shot \<open>readMonitors\<close> returns that record's own
  (empty) output. For the file \<open>[{"monitor":"DP-1","output":"eDP-1"}]\<close> all three variants
  return \<open>eDP-1\<close>, also after the failed decode.
\<close>

theorem stale_output_is_returned:
  "readMonitorOutput unmarshalFiles ''/tmp/monitors.json'' ''DP-1''
     [ReadOk brokenDpJSON, ReadOk monitorOnlyJSON, ReadErr []]
     = (Inr ''OLD'', [ReadErr []])
   \<and> ReadMonitorOutput unmarshalFiles ''/tmp/monitors.json'' ''DP-1''
     [ReadOk brokenDpJSON, ReadOk monitorOnlyJSON, ReadErr []]
     = (Inr ''OLD'', [ReadErr []])
   \<and> readMonitors unmarshalFiles ''/tmp/monitors.json'' ''DP-1'' (ReadOk monitorOnlyJSON)
     = Inr []
   \<and> readMonitorOutput unmarshalFiles ''/tmp/monitors.json'' ''DP-1''
     [ReadOk brokenDpJSON, ReadOk monitorsJSON, ReadErr []]
     = (Inr ''eDP-1'', [ReadErr []])
   \<and> ReadMonitorOutput unmarshalFiles ''/tmp/monitors.json'' ''DP-1''
     [ReadOk brokenDpJSON, ReadOk monitorsJSON, ReadErr []]
     = (Inr ''eDP-1'', [ReadErr []])
   \<and> readMonitors unmarshalFiles ''/tmp/monitors.json'' ''DP-1'' (ReadOk monitorsJSON)
     = Inr ''eDP-1''"
  by code_simp

text \<open>
  What the code does in general: once a decode has succeeded, the output field of the
  first element it left in \<open>infos\<close> with the requested name is returned.
\<close>

lemma lookup_after_decode:
  assumes "find (\<lambda>mi. Monitor mi = monitor) (elems infos) = Some mi"
  shows "(waitForFile path reads = (Inr d, rs)
            \<and> unmarshalLoop um path d nilSlice rs = (Inr infos, rs')
            \<longrightarrow> readMonitorOutput um path monitor reads = (Inr (MonitorOutput mi), rs')
              \<and> ReadMonitorOutput um path monitor reads = (Inr (MonitorOutput mi), rs'))
       \<and> (um d' nilSlice = (True, infos)
            \<longrightarrow> readMonitors um path monitor (ReadOk d') = Inr (MonitorOutput mi))"
  using findMonitor_find [OF assms]
  by (simp add: readMonitorOutput_def ReadMonitorOutput_def readMonitors_def)

text \<open>
  Claim C10: in the line a successful render prints, every one of the ten buttons has the
  visibility flag \<open>true\<close>; the slice \<open>visible\<close> is \<open>true\<close> at every slot 1..10 after the
  loop over the workspace records, whatever the records are.
\<close>

theorem buttons_always_visible:
  "(fst (render um e cmdName output ls) = Inr ()
      \<longrightarrow> (\<exists>st. snd (render um e cmdName output ls)
                   = ls @ replicate 10 (pathLine e) @ [widget (detected e) (\<lambda>j. True) st]))
   \<and> (fst (render_i3 um e output ls) = Inr ()
      \<longrightarrow> (\<exists>st. snd (render_i3 um e output ls) = ls @ [widget_i3 (\<lambda>j. True) st]))
   \<and> (markSlots output wss initSlots = Inr (states, visible) \<and> startWS \<le> i \<and> i \<le> endWS
      \<longrightarrow> visible ! nat i)"
proof (intro conjI impI)
  assume a: "fst (render um e cmdName output ls) = Inr ()"
  then obtain wss' st vis where "fetchWorkspaces um e 500 cmdName = Inr wss'"
    and "markSlots output wss' initSlots = Inr (st, vis)" by (auto elim: render_nil)
  then have "snd (render um e cmdName output ls)
      = ls @ replicate 10 (pathLine e) @ [widget (detected e) (\<lambda>j. True) (\<lambda>j. st ! nat j)]"
    by (simp add: render_widget)
  then show "\<exists>st. snd (render um e cmdName output ls)
                   = ls @ replicate 10 (pathLine e) @ [widget (detected e) (\<lambda>j. True) st]"
    by blast
next
  assume a: "fst (render_i3 um e output ls) = Inr ()"
  then obtain wss' st vis where "fetchWorkspaces um e 500 ''i3-msg'' = Inr wss'"
    and "markSlots output wss' initSlots = Inr (st, vis)" by (auto elim: render_i3_nil)
  then have "snd (render_i3 um e output ls) = ls @ [widget_i3 (\<lambda>j. True) (\<lambda>j. st ! nat j)]"
    by (simp add: render_i3_widget)
  then show "\<exists>st. snd (render_i3 um e output ls) = ls @ [widget_i3 (\<lambda>j. True) st]"
    by blast
next
  assume a: "markSlots output wss initSlots = Inr (states, visible) \<and> startWS \<le> i \<and> i \<le> endWS"
  then have "1 \<le> i" "i \<le> 10" by (simp_all add: startWS_def endWS_def)
  with a show "visible ! nat i" using slot_value(2) by blast
qed

text \<open>An instance: the two records with slot number 1.\<close>

theorem buttons_always_visible_witness:
  "fst (render (decodes twiceOneJSON twiceOne) (i3Host twiceOneJSON) ''/usr/bin/i3-msg''
          ''eDP-1'' []) = Inr ()
   \<and> (\<exists>st. snd (render (decodes twiceOneJSON twiceOne) (i3Host twiceOneJSON) ''/usr/bin/i3-msg''
                    ''eDP-1'' [])
               = [] @ replicate 10 (pathLine (i3Host twiceOneJSON)) @
                   [widget (detected (i3Host twiceOneJSON)) (\<lambda>j. True) st])
   \<and> fst (render_i3 (decodes twiceOneJSON twiceOne) (i3Host twiceOneJSON) ''eDP-1'' []) = Inr ()
   \<and> (\<exists>st. snd (render_i3 (decodes twiceOneJSON twiceOne) (i3Host twiceOneJSON) ''eDP-1'' [])
               = [] @ [widget_i3 (\<lambda>j. True) st])
   \<and> (markSlots ''eDP-1'' twiceOne initSlots
         = Inr ([[], ''focused'', ''unoccupied'', ''unoccupied'', ''unoccupied'', ''unoccupied'',
                 ''unoccupied'', ''unoccupied'', ''unoccupied'', ''unoccupied'', ''unoccupied''],
                [False, True, True, True, True, True, True, True, True, True, True])
       \<and> startWS \<le> 5 \<and> 5 \<le> endWS)
   \<and> [False, True, True, True, True, True, True, True, True, True, True] ! nat 5"
  (is "?A \<and> ?B \<and> ?A' \<and> ?B' \<and> ?A'' \<and> ?B''")
proof -
  have a: ?A by code_simp
  have a': ?A' by code_simp
  have a'': ?A'' by code_simp
  have b: ?B by (rule buttons_always_visible [THEN conjunct1, THEN mp, OF a])
  have b': ?B' by (rule buttons_always_visible [THEN conjunct2, THEN conjunct1, THEN mp, OF a'])
  have b'': ?B'' by (rule buttons_always_visible [THEN conjunct2, THEN conjunct2, THEN mp, OF a''])
  show ?thesis using a b a' b' a'' b'' by blast
qed

end
